theory Spec2Isabelle
  imports Complex_Main
begin

section \<open>Python values, exceptions and results\<close>

text \<open>
  The journal's metrics engine consists of \<^verbatim>\<open>parse_trade_data\<close> and
  \<^verbatim>\<open>analyze_trades\<close> (\<^verbatim>\<open>trade_analyzer.py\<close>) and of the row serialisation of
  \<^verbatim>\<open>save_data\<close> (\<^verbatim>\<open>utils.py\<close>). Python floats are modelled as exact reals:
  rounding, overflow and NaN are outside the model, and so is every statement whose truth
  depends on them. Text is modelled one \<open>char\<close> per character, a \<open>char\<close> being a code
  point below 256; the case of letters beyond ASCII is outside the model. An exception is
  the \<open>Inl\<close> branch of a result.
\<close>

datatype exn = ValueError | ZeroDivisionError | KeyError

definition bind_exn :: "exn + 'a \<Rightarrow> ('a \<Rightarrow> exn + 'b) \<Rightarrow> exn + 'b" where
  "bind_exn m f = (case m of Inl e \<Rightarrow> Inl e | Inr v \<Rightarrow> f v)"

text \<open>A trade is the dictionary \<^verbatim>\<open>{"type": ..., "r_multiple": ...}\<close>.\<close>

record trade =
  trade_type :: string
  r_multiple :: real

section \<open>The trade notation parser\<close>

subsection \<open>String primitives\<close>

text \<open>The characters \<^verbatim>\<open>str.strip()\<close> removes: the code points below 256 for which
  \<^verbatim>\<open>str.isspace\<close> holds, among them the next-line character U+0085 and the no-break
  space U+00A0.\<close>

definition is_space :: "char \<Rightarrow> bool" where
  "is_space c = (c \<in> set [CHR 0x09, CHR 0x0A, CHR 0x0B, CHR 0x0C, CHR 0x0D,
                            CHR 0x1C, CHR 0x1D, CHR 0x1E, CHR 0x1F, CHR 0x20,
                            CHR 0x85, CHR 0xA0])"

definition strip :: "string \<Rightarrow> string" where
  "strip s = rev (dropWhile is_space (rev (dropWhile is_space s)))"

definition upper_char :: "char \<Rightarrow> char" where
  "upper_char c =
     (case map_of (zip ''abcdefghijklmnopqrstuvwxyz'' ''ABCDEFGHIJKLMNOPQRSTUVWXYZ'') c of
        Some u \<Rightarrow> u
      | None \<Rightarrow> c)"

definition upper :: "string \<Rightarrow> string" where
  "upper s = map upper_char s"

text \<open>\<^verbatim>\<open>s.replace(" ", "")\<close>\<close>

definition remove_spaces :: "string \<Rightarrow> string" where
  "remove_spaces s = filter (\<lambda>c. c \<noteq> CHR '' '') s"

text \<open>\<^verbatim>\<open>s.split(",")\<close>: the empty string splits into one empty entry.\<close>

fun split_comma :: "string \<Rightarrow> string list" where
  "split_comma [] = [[]]"
| "split_comma (c # cs) =
     (if c = CHR '','' then [] # split_comma cs
      else (case split_comma cs of
              [] \<Rightarrow> [[c]]
            | t # ts \<Rightarrow> (c # t) # ts))"

definition is_digit :: "char \<Rightarrow> bool" where
  "is_digit c = (c \<in> set ''0123456789'')"

definition digit_val :: "char \<Rightarrow> int" where
  "digit_val c =
     (case map_of (zip ''0123456789'' [0, 1, 2, 3, 4, 5, 6, 7, 8, 9]) c of
        Some d \<Rightarrow> d
      | None \<Rightarrow> 0)"

definition digits_val :: "string \<Rightarrow> int" where
  "digits_val ds = foldl (\<lambda>acc c. 10 * acc + digit_val c) 0 ds"

subsection \<open>The pattern and the conversion of its numeric group\<close>

text \<open>
  Group 2 of \<^verbatim>\<open>([WL])([-+]?\d*\.?\d*)R?\<close>, matched against the text after the
  letter. Every part of the group is optional and what follows it is optional too, so the
  greedy choice is never undone: an optional sign, the longest run of digits, an optional
  dot, the longest run of digits.
\<close>

definition opt_char :: "(char \<Rightarrow> bool) \<Rightarrow> string \<Rightarrow> string" where
  "opt_char p s = (case s of [] \<Rightarrow> [] | c # _ \<Rightarrow> if p c then [c] else [])"

definition is_sign :: "char \<Rightarrow> bool" where
  "is_sign c = (c = CHR ''-'' \<or> c = CHR ''+'')"

definition match_number :: "string \<Rightarrow> string" where
  "match_number s =
     (let sign = opt_char is_sign s;
          s1 = drop (length sign) s;
          int_part = takeWhile is_digit s1;
          s2 = dropWhile is_digit s1;
          dot = opt_char (\<lambda>c. c = CHR ''.'') s2;
          s3 = drop (length dot) s2;
          frac_part = takeWhile is_digit s3
      in sign @ int_part @ dot @ frac_part)"

text \<open>
  \<^verbatim>\<open>re.match\<close> anchors the pattern at the start of the entry only. The match exists
  exactly when the entry starts with W or L; its groups are the letter and the numeric
  group. Whatever follows the matched prefix is not looked at.
\<close>

definition re_match :: "string \<Rightarrow> (string \<times> string) option" where
  "re_match entry =
     (case entry of
        [] \<Rightarrow> None
      | c # rest \<Rightarrow>
          if c = CHR ''W'' \<or> c = CHR ''L'' then Some ([c], match_number rest) else None)"

text \<open>
  \<^verbatim>\<open>float(r_str)\<close> on the numerals the pattern can capture: an optional sign, digits,
  an optional dot, digits. A numeral without any digit (\<^verbatim>\<open>"."\<close>, \<^verbatim>\<open>"-"\<close>,
  \<^verbatim>\<open>"+."\<close>) raises \<^verbatim>\<open>ValueError\<close>. The value is the exact decimal value.
\<close>

definition py_float :: "string \<Rightarrow> exn + real" where
  "py_float s =
     (let sign = opt_char is_sign s;
          body = drop (length sign) s;
          int_part = takeWhile is_digit body;
          rest = dropWhile is_digit body;
          dot = opt_char (\<lambda>c. c = CHR ''.'') rest;
          frac_part = drop (length dot) rest
      in if \<not> list_all is_digit frac_part \<or> (int_part = [] \<and> frac_part = [])
         then Inl ValueError
         else Inr ((if sign = ''-'' then - 1 else 1) *
                   (real_of_int (digits_val int_part) +
                    real_of_int (digits_val frac_part) / 10 ^ length frac_part)))"

subsection \<open>The parser\<close>

text \<open>
  The loop over the entries. The result is \<open>Inr (Some trades)\<close> for a returned list,
  \<open>Inr None\<close> for the returned \<^verbatim>\<open>None\<close>, and \<open>Inl ValueError\<close> when
  \<^verbatim>\<open>float\<close> raises.
\<close>

fun parse_entries :: "string list \<Rightarrow> trade list \<Rightarrow> exn + trade list option" where
  "parse_entries [] trades = Inr (Some trades)"
| "parse_entries (e # es) trades =
     (let entry = upper (strip e) in
      if entry = [] then parse_entries es trades
      else if entry = ''BE''
      then parse_entries es (trades @ [\<lparr>trade_type = ''BE'', r_multiple = 0\<rparr>])
      else (case re_match entry of
              None \<Rightarrow> Inr None
            | Some (ttype, r_str) \<Rightarrow>
                bind_exn (if r_str = [] then Inr 1 else py_float r_str)
                  (\<lambda>r. parse_entries es (trades @ [\<lparr>trade_type = ttype, r_multiple = r\<rparr>]))))"

definition parse_trade_data :: "string \<Rightarrow> exn + trade list option" where
  "parse_trade_data trade_input = parse_entries (split_comma (remove_spaces trade_input)) []"

section \<open>The calendar library\<close>

text \<open>
  \<^verbatim>\<open>analyze_trades\<close> reads the calendar through three calls of Python's
  \<^verbatim>\<open>datetime\<close>: \<^verbatim>\<open>strptime(day_date, "%Y-%m-%d")\<close>, \<^verbatim>\<open>weekday()\<close> and
  \<^verbatim>\<open>strftime("%A")\<close>. The analysis takes them as a parameter, so that what is proved
  about it holds whatever the library answers; \<open>strptime\<close> answers \<open>None\<close> when it
  raises.
\<close>

record pydate =
  pd_year :: int
  pd_month :: int
  pd_day :: int

record datetime_lib =
  strptime :: "string \<Rightarrow> pydate option"
  weekday :: "pydate \<Rightarrow> int"
  strftime_A :: "pydate \<Rightarrow> string"

text \<open>
  The library as CPython implements it, for the proleptic Gregorian calendar and the
  English day names: the instance at which the analysis is evaluated below.
\<close>

definition is_leap :: "int \<Rightarrow> bool" where
  "is_leap y = (y mod 4 = 0 \<and> (y mod 100 \<noteq> 0 \<or> y mod 400 = 0))"

definition days_in_month :: "int \<Rightarrow> int \<Rightarrow> int" where
  "days_in_month y m =
     (if m = 2 then (if is_leap y then 29 else 28)
      else if m = 4 \<or> m = 6 \<or> m = 9 \<or> m = 11 then 30 else 31)"

definition days_before_year :: "int \<Rightarrow> int" where
  "days_before_year y = (let y1 = y - 1 in y1 * 365 + y1 div 4 - y1 div 100 + y1 div 400)"

definition days_before_month :: "int \<Rightarrow> int \<Rightarrow> int" where
  "days_before_month y m = sum_list (map (days_in_month y) [1..m - 1])"

definition ymd2ord :: "pydate \<Rightarrow> int" where
  "ymd2ord d = days_before_year (pd_year d) + days_before_month (pd_year d) (pd_month d) + pd_day d"

definition py_weekday :: "pydate \<Rightarrow> int" where
  "py_weekday d = (ymd2ord d + 6) mod 7"

definition py_strftime_A :: "pydate \<Rightarrow> string" where
  "py_strftime_A d =
     [''Monday'', ''Tuesday'', ''Wednesday'', ''Thursday'', ''Friday'', ''Saturday'', ''Sunday'']
       ! nat (py_weekday d)"

text \<open>
  The directives of \<^verbatim>\<open>%Y-%m-%d\<close>: four digits; a month \<^verbatim>\<open>1[0-2]|0[1-9]|[1-9]\<close>
  followed by the dash; a day \<^verbatim>\<open>3[0-1]|[1-2]\d|0[1-9]|[1-9]| [1-9]\<close>. The whole text
  must be consumed, and the date must exist.
\<close>

definition in_range :: "char \<Rightarrow> char \<Rightarrow> char \<Rightarrow> bool" where
  "in_range lo hi c = (digit_val lo \<le> digit_val c \<and> digit_val c \<le> digit_val hi \<and> is_digit c)"

definition match_month :: "string \<Rightarrow> (int \<times> string) option" where
  "match_month s =
     (case s of
        a # b # c # r \<Rightarrow>
          if a = CHR ''1'' \<and> in_range CHR ''0'' CHR ''2'' b \<and> c = CHR ''-''
          then Some (10 + digit_val b, r)
          else if a = CHR ''0'' \<and> in_range CHR ''1'' CHR ''9'' b \<and> c = CHR ''-''
          then Some (digit_val b, r)
          else if in_range CHR ''1'' CHR ''9'' a \<and> b = CHR ''-''
          then Some (digit_val a, c # r)
          else None
      | _ \<Rightarrow> None)"

definition match_day :: "string \<Rightarrow> (int \<times> string) option" where
  "match_day s =
     (case s of
        [] \<Rightarrow> None
      | [a] \<Rightarrow> if in_range CHR ''1'' CHR ''9'' a then Some (digit_val a, []) else None
      | a # b # r \<Rightarrow>
          if a = CHR ''3'' \<and> in_range CHR ''0'' CHR ''1'' b then Some (30 + digit_val b, r)
          else if in_range CHR ''1'' CHR ''2'' a \<and> is_digit b
          then Some (10 * digit_val a + digit_val b, r)
          else if a = CHR ''0'' \<and> in_range CHR ''1'' CHR ''9'' b then Some (digit_val b, r)
          else if in_range CHR ''1'' CHR ''9'' a then Some (digit_val a, b # r)
          else if a = CHR '' '' \<and> in_range CHR ''1'' CHR ''9'' b then Some (digit_val b, r)
          else None)"

definition py_strptime :: "string \<Rightarrow> pydate option" where
  "py_strptime s =
     (if length s < 5 \<or> \<not> list_all is_digit (take 4 s) \<or> s ! 4 \<noteq> CHR ''-'' then None
      else (case match_month (drop 5 s) of
              None \<Rightarrow> None
            | Some (m, rest) \<Rightarrow>
                (case match_day rest of
                   None \<Rightarrow> None
                 | Some (d, rest') \<Rightarrow>
                     let y = digits_val (take 4 s)
                     in if rest' \<noteq> [] \<or> y < 1 \<or> days_in_month y m < d then None
                        else Some \<lparr>pd_year = y, pd_month = m, pd_day = d\<rparr>)))"

definition py_datetime :: datetime_lib where
  "py_datetime = \<lparr>strptime = py_strptime, weekday = py_weekday, strftime_A = py_strftime_A\<rparr>"

section \<open>The performance aggregator\<close>

subsection \<open>Data\<close>

text \<open>One entry of \<^verbatim>\<open>trades_data\<close>.\<close>

record day_data =
  day :: int
  date :: string
  trades :: "trade list"

text \<open>One entry of the report's \<^verbatim>\<open>daily\<close> list; the keys carry the prefix \<open>d_\<close>.\<close>

record daily_result =
  d_day :: int
  d_date :: string
  d_day_of_week :: string
  d_week_of_month :: "int option"
  d_month :: "int option"
  d_num_trades :: int
  d_wins :: int
  d_losses :: int
  d_breakeven :: int
  d_r_won :: real
  d_r_lost :: real
  d_net_r :: real
  d_win_rate :: real
  d_daily_pnl :: real
  d_end_balance :: real

text \<open>The local variables of \<^verbatim>\<open>analyze_trades\<close> that live across the loop over the days.\<close>

record loop_state =
  total_trades :: int
  total_wins :: int
  total_losses :: int
  total_breakeven :: int
  total_r_won :: real
  total_r_lost :: real
  daily_results :: "daily_result list"
  current_balance :: real
  peak_balance :: real
  equity_curve :: "real list"
  daily_returns :: "real list"
  current_win_streak :: int
  current_loss_streak :: int
  max_win_streak :: int
  max_loss_streak :: int
  day_of_week_performance :: "(string \<times> real list) list"
  week_of_month_performance :: "(int \<times> real list) list"
  month_performance :: "(int \<times> real list) list"
  all_trade_r :: "real list"

text \<open>A float that may be \<^verbatim>\<open>float('inf')\<close>.\<close>

datatype ratio = Finite real | Infinity

text \<open>The report's \<^verbatim>\<open>overall\<close> dictionary; the keys carry the prefix \<open>o_\<close>.\<close>

record overall_metrics =
  o_total_trades :: int
  o_win_rate :: real
  o_total_r :: real
  o_profit_factor :: ratio
  o_avg_win_r :: real
  o_avg_loss_r :: real
  o_avg_risk_reward :: ratio
  o_net_pnl :: real
  o_final_balance :: real
  o_max_drawdown_pct :: real
  o_max_drawdown_amount :: real
  o_expectancy :: real
  o_max_win_streak :: int
  o_max_loss_streak :: int
  o_sharpe_ratio :: real
  o_sqn :: real
  o_day_of_week_performance :: "(string \<times> real) list"
  o_week_of_month_performance :: "(string \<times> real) list"
  o_month_performance :: "(string \<times> real) list"

record report =
  overall :: overall_metrics
  daily :: "daily_result list"

subsection \<open>Checked arithmetic\<close>

text \<open>Float division raises on a zero divisor; \<^verbatim>\<open>math.sqrt\<close> raises on a negative
  argument.\<close>

definition py_div :: "real \<Rightarrow> real \<Rightarrow> exn + real" where
  "py_div a b = (if b = 0 then Inl ZeroDivisionError else Inr (a / b))"

definition py_sqrt :: "real \<Rightarrow> exn + real" where
  "py_sqrt x = (if x < 0 then Inl ValueError else Inr (sqrt x))"

subsection \<open>One day\<close>

text \<open>The \<^verbatim>\<open>try\<close> block: day name, month and week of the month, or the sentinels of
  the \<^verbatim>\<open>except\<close> branch.\<close>

definition calendar_fields :: "datetime_lib \<Rightarrow> string \<Rightarrow> string \<times> int option \<times> int option" where
  "calendar_fields lib day_date =
     (case strptime lib day_date of
        None \<Rightarrow> (''Unknown'', None, None)
      | Some date_obj \<Rightarrow>
          (let day_of_week = strftime_A lib date_obj;
               month = pd_month date_obj;
               first_day = date_obj\<lparr>pd_day := 1\<rparr>;
               dom = pd_day date_obj;
               adjusted_dom = dom + weekday lib first_day;
               week_of_month = (adjusted_dom - 1) div 7 + 1
           in (day_of_week, Some month, Some week_of_month)))"

definition count_type :: "string \<Rightarrow> trade list \<Rightarrow> int" where
  "count_type ty day_trades = int (length (filter (\<lambda>t. trade_type t = ty) day_trades))"

definition sum_r :: "string \<Rightarrow> trade list \<Rightarrow> real" where
  "sum_r ty day_trades = sum_list (map r_multiple (filter (\<lambda>t. trade_type t = ty) day_trades))"

text \<open>The entry a trade adds to \<^verbatim>\<open>all_trade_r\<close>.\<close>

definition signed_r :: "trade \<Rightarrow> real" where
  "signed_r t =
     (if trade_type t = ''W'' then r_multiple t
      else if trade_type t = ''L'' then - r_multiple t
      else 0)"

definition win_rate_of :: "int \<Rightarrow> int \<Rightarrow> exn + real" where
  "win_rate_of wins non_be_trades =
     (if non_be_trades > 0
      then bind_exn (py_div (real_of_int wins) (real_of_int non_be_trades)) (\<lambda>q. Inr (q * 100))
      else Inr 0)"

text \<open>The daily return joins the Sharpe samples only when the balance before the day is
  positive.\<close>

definition add_daily_return :: "real \<Rightarrow> real \<Rightarrow> real list \<Rightarrow> exn + real list" where
  "add_daily_return day_pnl previous_balance returns =
     (if previous_balance > 0
      then bind_exn (py_div day_pnl previous_balance) (\<lambda>daily_return. Inr (returns @ [daily_return]))
      else Inr returns)"

text \<open>The streak counters, in the order current win, current loss, maximal win, maximal
  loss.\<close>

definition update_streaks :: "real \<Rightarrow> int \<times> int \<times> int \<times> int \<Rightarrow> int \<times> int \<times> int \<times> int" where
  "update_streaks day_net_r st =
     (case st of (cur_win, cur_loss, max_win, max_loss) \<Rightarrow>
        if day_net_r > 0
        then (cur_win + 1, 0, (if cur_win + 1 > max_win then cur_win + 1 else max_win), max_loss)
        else if day_net_r < 0
        then (0, cur_loss + 1, max_win, (if cur_loss + 1 > max_loss then cur_loss + 1 else max_loss))
        else (cur_win, cur_loss, max_win, max_loss))"

text \<open>\<^verbatim>\<open>if key in d: d[key].append(x)\<close> on a dictionary kept in insertion order.\<close>

definition bucket_append :: "'k \<Rightarrow> real \<Rightarrow> ('k \<times> real list) list \<Rightarrow> ('k \<times> real list) list" where
  "bucket_append key x d = map (\<lambda>(k, xs). if k = key then (k, xs @ [x]) else (k, xs)) d"

definition bucket_append_opt :: "'k option \<Rightarrow> real \<Rightarrow> ('k \<times> real list) list \<Rightarrow> ('k \<times> real list) list" where
  "bucket_append_opt key x d = (case key of None \<Rightarrow> d | Some k \<Rightarrow> bucket_append k x d)"

definition process_day :: "datetime_lib \<Rightarrow> real \<Rightarrow> loop_state \<Rightarrow> day_data \<Rightarrow> exn + loop_state" where
  "process_day lib risk_amount s day_data =
     (let day_number = day day_data;
          day_date = date day_data;
          day_trades = trades day_data
      in case calendar_fields lib day_date of (day_of_week, month, week_of_month) \<Rightarrow>
      let day_trade_count = int (length day_trades);
          day_wins = count_type ''W'' day_trades;
          day_losses = count_type ''L'' day_trades;
          day_breakeven = count_type ''BE'' day_trades;
          day_r_won = sum_r ''W'' day_trades;
          day_r_lost = sum_r ''L'' day_trades;
          day_net_r = day_r_won - day_r_lost;
          non_be_trades = day_wins + day_losses
      in bind_exn (win_rate_of day_wins non_be_trades) (\<lambda>day_win_rate.
      let day_pnl = day_net_r * risk_amount;
          previous_balance = current_balance s;
          balance = previous_balance + day_pnl
      in bind_exn (add_daily_return day_pnl previous_balance (daily_returns s)) (\<lambda>returns.
      case update_streaks day_net_r
             (current_win_streak s, current_loss_streak s, max_win_streak s, max_loss_streak s)
      of (cur_win, cur_loss, max_win, max_loss) \<Rightarrow>
      Inr (s\<lparr>
        total_trades := total_trades s + day_trade_count,
        total_wins := total_wins s + day_wins,
        total_losses := total_losses s + day_losses,
        total_breakeven := total_breakeven s + day_breakeven,
        total_r_won := total_r_won s + day_r_won,
        total_r_lost := total_r_lost s + day_r_lost,
        daily_results := daily_results s @
          [\<lparr>d_day = day_number, d_date = day_date, d_day_of_week = day_of_week,
            d_week_of_month = week_of_month, d_month = month,
            d_num_trades = day_trade_count, d_wins = day_wins, d_losses = day_losses,
            d_breakeven = day_breakeven, d_r_won = day_r_won, d_r_lost = day_r_lost,
            d_net_r = day_net_r, d_win_rate = day_win_rate, d_daily_pnl = day_pnl,
            d_end_balance = balance\<rparr>],
        current_balance := balance,
        peak_balance := (if balance > peak_balance s then balance else peak_balance s),
        equity_curve := equity_curve s @ [balance],
        daily_returns := returns,
        current_win_streak := cur_win,
        current_loss_streak := cur_loss,
        max_win_streak := max_win,
        max_loss_streak := max_loss,
        day_of_week_performance := bucket_append day_of_week day_net_r (day_of_week_performance s),
        week_of_month_performance :=
          bucket_append_opt week_of_month day_net_r (week_of_month_performance s),
        month_performance := bucket_append_opt month day_net_r (month_performance s),
        all_trade_r := all_trade_r s @ map signed_r day_trades\<rparr>))))"

text \<open>The loop over \<^verbatim>\<open>trades_data\<close>, and the values of the locals before it.\<close>

fun process_days :: "datetime_lib \<Rightarrow> real \<Rightarrow> loop_state \<Rightarrow> day_data list \<Rightarrow> exn + loop_state" where
  "process_days lib risk_amount s [] = Inr s"
| "process_days lib risk_amount s (d # ds) =
     bind_exn (process_day lib risk_amount s d) (\<lambda>s'. process_days lib risk_amount s' ds)"

definition initial_state :: "real \<Rightarrow> loop_state" where
  "initial_state initial_balance =
     \<lparr>total_trades = 0, total_wins = 0, total_losses = 0, total_breakeven = 0,
      total_r_won = 0, total_r_lost = 0, daily_results = [],
      current_balance = initial_balance, peak_balance = initial_balance,
      equity_curve = [initial_balance], daily_returns = [],
      current_win_streak = 0, current_loss_streak = 0, max_win_streak = 0, max_loss_streak = 0,
      day_of_week_performance =
        [(''Monday'', []), (''Tuesday'', []), (''Wednesday'', []), (''Thursday'', []),
         (''Friday'', [])],
      week_of_month_performance = [(1, []), (2, []), (3, []), (4, []), (5, [])],
      month_performance =
        [(1, []), (2, []), (3, []), (4, []), (5, []), (6, []), (7, []), (8, []), (9, []),
         (10, []), (11, []), (12, [])],
      all_trade_r = []\<rparr>"

subsection \<open>The aggregate pass\<close>

text \<open>The walk over \<^verbatim>\<open>equity_curve[1:]\<close>; the result is the percentage that goes with
  the largest dollar drawdown, and that drawdown.\<close>

fun drawdown_loop :: "real list \<Rightarrow> real \<Rightarrow> real \<Rightarrow> real \<Rightarrow> exn + real \<times> real" where
  "drawdown_loop [] peak max_drawdown_pct max_drawdown_amount =
     Inr (max_drawdown_pct, max_drawdown_amount)"
| "drawdown_loop (equity # rest) peak max_drawdown_pct max_drawdown_amount =
     (let peak' = (if equity > peak then equity else peak);
          drawdown = peak' - equity
      in bind_exn (if peak' > 0
                   then bind_exn (py_div drawdown peak') (\<lambda>q. Inr (q * 100))
                   else Inr 0) (\<lambda>drawdown_pct.
         if drawdown > max_drawdown_amount
         then drawdown_loop rest peak' drawdown_pct drawdown
         else drawdown_loop rest peak' max_drawdown_pct max_drawdown_amount))"

definition max_drawdown :: "real list \<Rightarrow> exn + real \<times> real" where
  "max_drawdown curve =
     (if length curve > 1 then drawdown_loop (tl curve) (hd curve) 0 0 else Inr (0, 0))"

text \<open>
  \<^verbatim>\<open>sum(xs) / len(xs)\<close> and
  \<^verbatim>\<open>math.sqrt(sum((r - avg) ** 2 for r in xs) / len(xs))\<close>, in exact arithmetic.
  Two things the floats of the code do are therefore not in these definitions, nor in
  \<open>sharpe_ratio_of\<close> and \<open>sqn_of\<close> below. The power \<^verbatim>\<open>** 2\<close> raises
  \<^verbatim>\<open>OverflowError\<close> when the square leaves the range of a float, for a deviation
  beyond about 1.3e154: the trades W 1e200 and BE are such samples. And the mean of equal
  floats need not be that float: for three trades of 0.1 it is 0.10000000000000002, the
  deviation the code computes is 1.39e-17 and not 0, and the test \<^verbatim>\<open>std_dev_r > 0\<close>
  succeeds where the exact deviation is 0. Nothing below is a statement about either.
\<close>

definition average :: "real list \<Rightarrow> exn + real" where
  "average xs = py_div (sum_list xs) (real (length xs))"

definition std_dev_of :: "real list \<Rightarrow> real \<Rightarrow> exn + real" where
  "std_dev_of xs avg =
     bind_exn (py_div (sum_list (map (\<lambda>r. (r - avg) ^ 2) xs)) (real (length xs))) py_sqrt"

definition sharpe_ratio_of :: "real list \<Rightarrow> exn + real" where
  "sharpe_ratio_of returns =
     (if length returns > 1
      then bind_exn (average returns) (\<lambda>avg_return.
           bind_exn (std_dev_of returns avg_return) (\<lambda>std_dev.
           if std_dev > 0
           then bind_exn (py_div avg_return std_dev) (\<lambda>q. Inr (q * sqrt 252))
           else Inr 0))
      else Inr 0)"

definition sqn_of :: "real list \<Rightarrow> exn + real" where
  "sqn_of rs =
     (if length rs > 1
      then bind_exn (average rs) (\<lambda>avg_r.
           bind_exn (std_dev_of rs avg_r) (\<lambda>std_dev_r.
           if std_dev_r > 0
           then py_div (avg_r * sqrt (real (length rs))) std_dev_r
           else Inr 0))
      else Inr 0)"

text \<open>The three maps of bucket averages. The weekday map keeps every key; the other two
  drop the empty buckets.\<close>

fun day_of_week_avg :: "(string \<times> real list) list \<Rightarrow> exn + (string \<times> real) list" where
  "day_of_week_avg [] = Inr []"
| "day_of_week_avg ((day_name, results) # rest) =
     bind_exn (if results \<noteq> [] then average results else Inr 0) (\<lambda>avg.
     bind_exn (day_of_week_avg rest) (\<lambda>r. Inr ((day_name, avg) # r)))"

definition digit_char :: "nat \<Rightarrow> char" where
  "digit_char n = ''0123456789'' ! n"

fun str_nat :: "nat \<Rightarrow> string" where
  "str_nat n = (if n < 10 then [digit_char n] else str_nat (n div 10) @ [digit_char (n mod 10)])"

declare str_nat.simps [simp del]

definition str_int :: "int \<Rightarrow> string" where
  "str_int i = (if i < 0 then CHR ''-'' # str_nat (nat (- i)) else str_nat (nat i))"

fun week_of_month_avg :: "(int \<times> real list) list \<Rightarrow> exn + (string \<times> real) list" where
  "week_of_month_avg [] = Inr []"
| "week_of_month_avg ((week_num, results) # rest) =
     (if results \<noteq> []
      then bind_exn (average results) (\<lambda>avg.
           bind_exn (week_of_month_avg rest) (\<lambda>r. Inr ((''Week '' @ str_int week_num, avg) # r)))
      else week_of_month_avg rest)"

definition month_names :: "(int \<times> string) list" where
  "month_names =
     [(1, ''January''), (2, ''February''), (3, ''March''), (4, ''April''), (5, ''May''),
      (6, ''June''), (7, ''July''), (8, ''August''), (9, ''September''), (10, ''October''),
      (11, ''November''), (12, ''December'')]"

definition lookup_key :: "('k \<times> 'v) list \<Rightarrow> 'k \<Rightarrow> exn + 'v" where
  "lookup_key d k = (case map_of d k of None \<Rightarrow> Inl KeyError | Some v \<Rightarrow> Inr v)"

fun month_avg :: "(int \<times> real list) list \<Rightarrow> exn + (string \<times> real) list" where
  "month_avg [] = Inr []"
| "month_avg ((month_num, results) # rest) =
     (if results \<noteq> []
      then bind_exn (lookup_key month_names month_num) (\<lambda>month_name.
           bind_exn (average results) (\<lambda>avg.
           bind_exn (month_avg rest) (\<lambda>r. Inr ((month_name, avg) # r))))
      else month_avg rest)"

text \<open>\<^verbatim>\<open>(a / b) if b > 0 else float('inf')\<close>: the profit factor and the risk/reward
  ratio.\<close>

definition ratio_or_inf :: "real \<Rightarrow> real \<Rightarrow> exn + ratio" where
  "ratio_or_inf r_won r_lost =
     (if r_lost > 0 then bind_exn (py_div r_won r_lost) (\<lambda>q. Inr (Finite q)) else Inr Infinity)"

definition avg_r_of :: "real \<Rightarrow> int \<Rightarrow> exn + real" where
  "avg_r_of total_r n = (if n > 0 then py_div total_r (real_of_int n) else Inr 0)"

definition overall_metrics_of :: "real \<Rightarrow> loop_state \<Rightarrow> exn + overall_metrics" where
  "overall_metrics_of risk_amount s =
     (let total_non_be_trades = total_wins s + total_losses s
      in bind_exn (win_rate_of (total_wins s) total_non_be_trades) (\<lambda>overall_win_rate.
      let total_r = total_r_won s - total_r_lost s
      in bind_exn (ratio_or_inf (total_r_won s) (total_r_lost s)) (\<lambda>profit_factor.
      bind_exn (avg_r_of (total_r_won s) (total_wins s)) (\<lambda>avg_win_r.
      bind_exn (avg_r_of (total_r_lost s) (total_losses s)) (\<lambda>avg_loss_r.
      bind_exn (ratio_or_inf avg_win_r avg_loss_r) (\<lambda>avg_risk_reward.
      let net_pnl = total_r * risk_amount
      in bind_exn (max_drawdown (equity_curve s)) (\<lambda>(max_drawdown_pct, max_drawdown_amount).
      let expectancy = (overall_win_rate / 100 * avg_win_r)
                       - ((100 - overall_win_rate) / 100 * avg_loss_r)
      in bind_exn (sharpe_ratio_of (daily_returns s)) (\<lambda>sharpe_ratio.
      bind_exn (sqn_of (all_trade_r s)) (\<lambda>sqn.
      bind_exn (day_of_week_avg (day_of_week_performance s)) (\<lambda>dow_avg.
      bind_exn (week_of_month_avg (week_of_month_performance s)) (\<lambda>wom_avg.
      bind_exn (month_avg (month_performance s)) (\<lambda>mon_avg.
      Inr \<lparr>o_total_trades = total_trades s,
           o_win_rate = overall_win_rate,
           o_total_r = total_r,
           o_profit_factor = profit_factor,
           o_avg_win_r = avg_win_r,
           o_avg_loss_r = avg_loss_r,
           o_avg_risk_reward = avg_risk_reward,
           o_net_pnl = net_pnl,
           o_final_balance = current_balance s,
           o_max_drawdown_pct = max_drawdown_pct,
           o_max_drawdown_amount = max_drawdown_amount,
           o_expectancy = expectancy,
           o_max_win_streak = max_win_streak s,
           o_max_loss_streak = max_loss_streak s,
           o_sharpe_ratio = sharpe_ratio,
           o_sqn = sqn,
           o_day_of_week_performance = dow_avg,
           o_week_of_month_performance = wom_avg,
           o_month_performance = mon_avg\<rparr>))))))))))))"

definition analyze_trades :: "datetime_lib \<Rightarrow> day_data list \<Rightarrow> real \<Rightarrow> real \<Rightarrow> exn + report" where
  "analyze_trades lib trades_data initial_balance risk_amount =
     bind_exn (process_days lib risk_amount (initial_state initial_balance) trades_data) (\<lambda>s.
     bind_exn (overall_metrics_of risk_amount s) (\<lambda>ov.
     Inr \<lparr>overall = ov, daily = daily_results s\<rparr>))"

section \<open>The row serialisation of \<^verbatim>\<open>save_data\<close>\<close>

text \<open>
  \<^verbatim>\<open>save_data\<close> writes a day's trades as \<^verbatim>\<open>BE\<close> or
  \<^verbatim>\<open>f"{type}{r_multiple}R"\<close>, joined by commas. How Python prints a float is the
  parameter \<open>float_str\<close>.
\<close>

definition trade_string :: "(real \<Rightarrow> string) \<Rightarrow> trade \<Rightarrow> string" where
  "trade_string float_str t =
     (if trade_type t = ''BE'' then ''BE''
      else trade_type t @ float_str (r_multiple t) @ ''R'')"

fun join_comma :: "string list \<Rightarrow> string" where
  "join_comma [] = []"
| "join_comma [x] = x"
| "join_comma (x # y # r) = x @ '','' @ join_comma (y # r)"

definition trades_str :: "(real \<Rightarrow> string) \<Rightarrow> trade list \<Rightarrow> string" where
  "trades_str float_str ts = join_comma (map (trade_string float_str) ts)"

section \<open>Reference formulas\<close>

text \<open>
  The statistics as the design document words them: the mean and the population standard
  deviation (the squared deviations are divided by the number of samples).
\<close>

definition mean :: "real list \<Rightarrow> real" where
  "mean xs = sum_list xs / real (length xs)"

definition population_stddev :: "real list \<Rightarrow> real" where
  "population_stddev xs = sqrt (sum_list (map (\<lambda>x. (x - mean xs) ^ 2) xs) / real (length xs))"

text \<open>
  The notation of one token as the design document words it: the literal \<^verbatim>\<open>BE\<close>, or
  one letter W or L, an optional signed decimal number, an optional trailing R, and
  nothing else.
\<close>

definition spec_token :: "string \<Rightarrow> bool" where
  "spec_token t =
     (t = ''BE'' \<or>
      (case t of
         [] \<Rightarrow> False
       | c # rest \<Rightarrow>
           (c = CHR ''W'' \<or> c = CHR ''L'') \<and>
           (let after = drop (length (match_number rest)) rest
            in after = [] \<or> after = ''R'')))"


text \<open>The two-day history \<^verbatim>\<open>[W2R, L1R]\<close>, \<^verbatim>\<open>[W1R]\<close>, with any day numbers and
  dates.\<close>

definition example_days :: "int \<Rightarrow> string \<Rightarrow> int \<Rightarrow> string \<Rightarrow> day_data list" where
  "example_days n1 dt1 n2 dt2 =
     [\<lparr>day = n1, date = dt1,
       trades = [\<lparr>trade_type = ''W'', r_multiple = 2\<rparr>, \<lparr>trade_type = ''L'', r_multiple = 1\<rparr>]\<rparr>,
      \<lparr>day = n2, date = dt2, trades = [\<lparr>trade_type = ''W'', r_multiple = 1\<rparr>]\<rparr>]"

text \<open>A rendering that agrees with Python's on the floats 1e16, 2.0, 1.5 and 1.0; it
  stands for \<open>float_str\<close> where an evaluation needs a concrete one.\<close>

definition float_str_sample :: "real \<Rightarrow> string" where
  "float_str_sample x =
     (if x = 10 ^ 16 then ''1e+16''
      else if x = 2 then ''2.0''
      else if x = 1.5 then ''1.5''
      else ''1.0'')"

section \<open>Basic facts\<close>

lemma bind_exn_Inr [simp]: "bind_exn (Inr v) f = f v"
  by (simp add: bind_exn_def)

lemma bind_exn_Inl [simp]: "bind_exn (Inl e) f = Inl e"
  by (simp add: bind_exn_def)

lemma py_div_eq: "b \<noteq> 0 \<Longrightarrow> py_div a b = Inr (a / b)"
  by (simp add: py_div_def)

lemma py_sqrt_eq: "0 \<le> x \<Longrightarrow> py_sqrt x = Inr (sqrt x)"
  by (simp add: py_sqrt_def)

lemma win_rate_of_eq:
  "win_rate_of w n = Inr (if n > 0 then real_of_int w / real_of_int n * 100 else 0)"
  by (simp add: win_rate_of_def py_div_eq)

lemma add_daily_return_eq:
  "add_daily_return pnl pb rs = Inr (if pb > 0 then rs @ [pnl / pb] else rs)"
  by (simp add: add_daily_return_def py_div_eq)

lemma ratio_or_inf_eq:
  "ratio_or_inf a b = Inr (if b > 0 then Finite (a / b) else Infinity)"
  by (simp add: ratio_or_inf_def py_div_eq)

lemma avg_r_of_eq:
  "avg_r_of a n = Inr (if n > 0 then a / real_of_int n else 0)"
  by (simp add: avg_r_of_def py_div_eq)

lemma average_eq: "xs \<noteq> [] \<Longrightarrow> average xs = Inr (mean xs)"
  by (simp add: average_def py_div_eq mean_def)

lemma sum_list_squares_nonneg: "0 \<le> sum_list (map (\<lambda>r. (r - avg) ^ 2) (xs :: real list))"
  by (rule sum_list_nonneg) auto

lemma std_dev_of_eq:
  "xs \<noteq> [] \<Longrightarrow> std_dev_of xs (mean xs) = Inr (population_stddev xs)"
  by (simp add: std_dev_of_def py_div_eq py_sqrt_eq sum_list_squares_nonneg population_stddev_def)

lemma drawdown_loop_total: "\<exists>p a. drawdown_loop curve peak pct amt = Inr (p, a)"
proof (induction curve arbitrary: peak pct amt)
  case Nil
  show ?case by simp
next
  case (Cons equity rest)
  show ?case
    by (simp add: Let_def py_div_eq Cons.IH)
qed

lemma max_drawdown_total: "\<exists>p a. max_drawdown curve = Inr (p, a)"
  by (simp add: max_drawdown_def drawdown_loop_total)

lemma sharpe_ratio_of_eq:
  "sharpe_ratio_of rs =
     Inr (if length rs > 1 \<and> population_stddev rs > 0
          then mean rs / population_stddev rs * sqrt 252 else 0)"
proof (cases "length rs > 1")
  case True
  then have ne: "rs \<noteq> []" by auto
  note sd = std_dev_of_eq [OF ne]
  show ?thesis
  proof (cases "population_stddev rs > 0")
    case pos: True
    then have "py_div (mean rs) (population_stddev rs) = Inr (mean rs / population_stddev rs)"
      by (simp only: py_div_def) simp
    with True pos show ?thesis
      by (simp only: sharpe_ratio_of_def average_eq [OF ne] sd bind_exn_Inr) simp
  next
    case False
    with True show ?thesis
      by (simp only: sharpe_ratio_of_def average_eq [OF ne] sd bind_exn_Inr) simp
  qed
next
  case False
  then show ?thesis by (simp add: sharpe_ratio_of_def)
qed

lemma sqn_of_eq:
  "sqn_of rs =
     Inr (if length rs > 1 \<and> population_stddev rs > 0
          then mean rs * sqrt (real (length rs)) / population_stddev rs else 0)"
proof (cases "length rs > 1")
  case True
  then have ne: "rs \<noteq> []" by auto
  note sd = std_dev_of_eq [OF ne]
  show ?thesis
  proof (cases "population_stddev rs > 0")
    case pos: True
    then have "py_div (mean rs * sqrt (real (length rs))) (population_stddev rs)
               = Inr (mean rs * sqrt (real (length rs)) / population_stddev rs)"
      by (simp only: py_div_def) simp
    with True pos show ?thesis
      by (simp only: sqn_of_def average_eq [OF ne] sd bind_exn_Inr) simp
  next
    case False
    with True show ?thesis
      by (simp only: sqn_of_def average_eq [OF ne] sd bind_exn_Inr) simp
  qed
next
  case False
  then show ?thesis by (simp add: sqn_of_def)
qed

lemma day_of_week_avg_total: "\<exists>v. day_of_week_avg d = Inr v"
proof (induction d)
  case Nil
  show ?case by simp
next
  case (Cons kv rest)
  obtain k results where kv: "kv = (k, results)" by (cases kv)
  from Cons.IH obtain v where "day_of_week_avg rest = Inr v" ..
  then show ?case
    by (simp add: kv average_eq)
qed

lemma week_of_month_avg_total: "\<exists>v. week_of_month_avg d = Inr v"
proof (induction d)
  case Nil
  show ?case by simp
next
  case (Cons kv rest)
  obtain k results where kv: "kv = (k, results)" by (cases kv)
  from Cons.IH obtain v where "week_of_month_avg rest = Inr v" ..
  then show ?case
    by (simp add: kv average_eq)
qed

lemma month_avg_total:
  "\<forall>k \<in> fst ` set d. k \<in> fst ` set month_names \<Longrightarrow> \<exists>v. month_avg d = Inr v"
proof (induction d)
  case Nil
  show ?case by simp
next
  case (Cons kv rest)
  obtain k results where kv: "kv = (k, results)" by (cases kv)
  from Cons.prems have "\<forall>k \<in> fst ` set rest. k \<in> fst ` set month_names" by simp
  from Cons.IH [OF this] obtain v where r: "month_avg rest = Inr v" ..
  from Cons.prems kv have "k \<in> fst ` set month_names" by simp
  then obtain nm where "map_of month_names k = Some nm"
    by (metis domD dom_map_of_conv_image_fst)
  then have "lookup_key month_names k = Inr nm" by (simp add: lookup_key_def)
  with r show ?case
    by (simp add: kv average_eq)
qed

lemmas process_day_simps = process_day_def Let_def win_rate_of_eq add_daily_return_eq

lemma process_day_total: "\<exists>s'. process_day lib risk_amount s d = Inr s'"
  by (simp add: process_day_simps split: prod.splits)


lemma bucket_append_keys: "map fst (bucket_append k x d) = map fst d"
  by (induction d) (auto simp: bucket_append_def)

lemma bucket_append_opt_keys: "map fst (bucket_append_opt k x d) = map fst d"
  by (cases k) (simp_all add: bucket_append_opt_def bucket_append_keys)

lemma process_day_month_keys:
  "process_day lib risk_amount s d = Inr s' \<Longrightarrow>
   map fst (month_performance s') = map fst (month_performance s)"
  by (auto simp: process_day_simps bucket_append_opt_keys split: prod.splits)

lemma process_days_month_keys:
  "process_days lib risk_amount s ds = Inr s' \<Longrightarrow>
   map fst (month_performance s') = map fst (month_performance s)"
proof (induction ds arbitrary: s)
  case Nil
  then show ?case by simp
next
  case (Cons d ds)
  obtain s1 where s1: "process_day lib risk_amount s d = Inr s1"
    using process_day_total by blast
  with Cons.prems have "process_days lib risk_amount s1 ds = Inr s'" by simp
  from Cons.IH [OF this] process_day_month_keys [OF s1] show ?case by simp
qed

lemma overall_metrics_of_total:
  assumes "map fst (month_performance s) = map fst month_names"
  shows "\<exists>ov. overall_metrics_of risk_amount s = Inr ov"
proof -
  obtain p a where dd: "max_drawdown (equity_curve s) = Inr (p, a)"
    using max_drawdown_total by blast
  obtain dow where dow: "day_of_week_avg (day_of_week_performance s) = Inr dow"
    using day_of_week_avg_total by blast
  obtain wom where wom: "week_of_month_avg (week_of_month_performance s) = Inr wom"
    using week_of_month_avg_total by blast
  have "\<forall>k \<in> fst ` set (month_performance s). k \<in> fst ` set month_names"
    using assms by (metis image_set)
  then obtain mon where mon: "month_avg (month_performance s) = Inr mon"
    using month_avg_total by blast
  show ?thesis
    by (simp add: overall_metrics_of_def Let_def win_rate_of_eq ratio_or_inf_eq avg_r_of_eq
        dd sharpe_ratio_of_eq sqn_of_eq dow wom mon)
qed

lemma initial_month_keys: "map fst (month_performance (initial_state b)) = map fst month_names"
  by (simp add: initial_state_def month_names_def)

lemma example_state:
  "\<exists>s. process_days lib 250 (initial_state 25000) (example_days n1 dt1 n2 dt2) = Inr s
     \<and> map d_net_r (daily_results s) = [1, 1]
     \<and> map d_daily_pnl (daily_results s) = [250, 250]
     \<and> map d_end_balance (daily_results s) = [25250, 25500]
     \<and> total_wins s = 2 \<and> total_losses s = 1
     \<and> total_r_won s = 3 \<and> total_r_lost s = 1
     \<and> equity_curve s = [25000, 25250, 25500]
     \<and> daily_returns s = [1 / 100, 1 / 101]
     \<and> all_trade_r s = [2, - 1, 1]"
  by (simp add: example_days_def process_day_simps initial_state_def count_type_def sum_r_def
      signed_r_def split: prod.splits)

lemma overall_metrics_fields:
  assumes "overall_metrics_of risk_amount s = Inr ov"
  shows "o_profit_factor ov = (if total_r_lost s > 0 then Finite (total_r_won s / total_r_lost s) else Infinity)"
    and "o_win_rate ov = (if total_wins s + total_losses s > 0
           then real_of_int (total_wins s) / real_of_int (total_wins s + total_losses s) * 100 else 0)"
    and "o_total_r ov = total_r_won s - total_r_lost s"
    and "max_drawdown (equity_curve s) = Inr (o_max_drawdown_pct ov, o_max_drawdown_amount ov)"
  using assms
  by (auto simp: overall_metrics_of_def Let_def win_rate_of_eq ratio_or_inf_eq avg_r_of_eq
      sharpe_ratio_of_eq sqn_of_eq bind_exn_def split: sum.splits prod.splits)

lemma analyze_trades_split:
  assumes "process_days lib risk_amount (initial_state initial_balance) ds = Inr s"
  shows "\<exists>ov. overall_metrics_of risk_amount s = Inr ov \<and>
          analyze_trades lib ds initial_balance risk_amount = Inr \<lparr>overall = ov, daily = daily_results s\<rparr>"
proof -
  from process_days_month_keys [OF assms] initial_month_keys
  have "map fst (month_performance s) = map fst month_names" by simp
  from overall_metrics_of_total [OF this] obtain ov
    where "overall_metrics_of risk_amount s = Inr ov" ..
  with assms show ?thesis by (simp add: analyze_trades_def)
qed



lemma week_formula: "((n::int) - 1) div 7 + 1 = \<lceil>real_of_int n / 7\<rceil>"
proof -
  have "\<lceil>real_of_int n / real_of_int 7\<rceil> = - (- n div 7)"
    by (rule ceiling_divide_eq_div)
  then show ?thesis by simp
qed

lemma py_strptime_ex: "py_strptime ''2023-07-31'' = Some \<lparr>pd_year = 2023, pd_month = 7, pd_day = 31\<rparr>"
  by (simp add: py_strptime_def match_month_def match_day_def in_range_def is_digit_def
      digit_val_def digits_val_def days_in_month_def Let_def)

lemma py_weekday_ex: "py_weekday \<lparr>pd_year = 2023, pd_month = 7, pd_day = 1\<rparr> = 5"
  by (simp add: py_weekday_def ymd2ord_def days_before_year_def days_before_month_def
      days_in_month_def is_leap_def Let_def upto.simps)

section \<open>Streaks\<close>

text \<open>
  Claim C7. Processing a day whose net R is positive adds one to the win streak, resets
  the loss streak to 0 and raises the maximal win streak when it is exceeded; a day whose
  net R is negative does the same with the roles exchanged; a day whose net R is 0 leaves
  both counters and both maxima as they were. The net R is the one the day's result
  reports.
\<close>

theorem streak_state_machine:
  assumes "process_day lib risk_amount s d = Inr s'"
  shows "(sum_r ''W'' (trades d) - sum_r ''L'' (trades d) > 0 \<longrightarrow>
            current_win_streak s' = current_win_streak s + 1 \<and>
            current_loss_streak s' = 0 \<and>
            max_win_streak s' = max (max_win_streak s) (current_win_streak s + 1) \<and>
            max_loss_streak s' = max_loss_streak s)
       \<and> (sum_r ''W'' (trades d) - sum_r ''L'' (trades d) < 0 \<longrightarrow>
            current_loss_streak s' = current_loss_streak s + 1 \<and>
            current_win_streak s' = 0 \<and>
            max_loss_streak s' = max (max_loss_streak s) (current_loss_streak s + 1) \<and>
            max_win_streak s' = max_win_streak s)
       \<and> (sum_r ''W'' (trades d) - sum_r ''L'' (trades d) = 0 \<longrightarrow>
            current_win_streak s' = current_win_streak s \<and>
            current_loss_streak s' = current_loss_streak s \<and>
            max_win_streak s' = max_win_streak s \<and>
            max_loss_streak s' = max_loss_streak s)
       \<and> d_net_r (last (daily_results s')) = sum_r ''W'' (trades d) - sum_r ''L'' (trades d)"
  using assms
  by (auto simp: process_day_simps update_streaks_def split: prod.splits if_splits)

theorem streak_state_machine_witness:
  "(\<exists>s'. process_day py_datetime 250
           ((initial_state 25000)\<lparr>current_win_streak := 3, max_win_streak := 3,
                                   current_loss_streak := 0, max_loss_streak := 2\<rparr>)
           \<lparr>day = 4, date = ''2024-01-05'', trades = [\<lparr>trade_type = ''W'', r_multiple = 2\<rparr>]\<rparr> = Inr s'
         \<and> current_win_streak s' = 4 \<and> current_loss_streak s' = 0
         \<and> max_win_streak s' = 4 \<and> max_loss_streak s' = 2)
   \<and> (\<exists>s'. process_day py_datetime 250
           ((initial_state 25000)\<lparr>current_win_streak := 3, max_win_streak := 3,
                                   current_loss_streak := 0, max_loss_streak := 2\<rparr>)
           \<lparr>day = 4, date = ''2024-01-05'', trades = [\<lparr>trade_type = ''L'', r_multiple = 1\<rparr>]\<rparr> = Inr s'
         \<and> current_win_streak s' = 0 \<and> current_loss_streak s' = 1
         \<and> max_win_streak s' = 3 \<and> max_loss_streak s' = 2)
   \<and> (\<exists>s'. process_day py_datetime 250
           ((initial_state 25000)\<lparr>current_win_streak := 3, max_win_streak := 3,
                                   current_loss_streak := 0, max_loss_streak := 2\<rparr>)
           \<lparr>day = 4, date = ''2024-01-05'',
             trades = [\<lparr>trade_type = ''W'', r_multiple = 1\<rparr>, \<lparr>trade_type = ''L'', r_multiple = 1\<rparr>]\<rparr> = Inr s'
         \<and> current_win_streak s' = 3 \<and> current_loss_streak s' = 0
         \<and> max_win_streak s' = 3 \<and> max_loss_streak s' = 2)"
proof -
  let ?s = "(initial_state 25000)\<lparr>current_win_streak := 3, max_win_streak := 3,
                                   current_loss_streak := 0, max_loss_streak := 2\<rparr>"
  let ?w = "\<lparr>day = 4, date = ''2024-01-05'', trades = [\<lparr>trade_type = ''W'', r_multiple = 2\<rparr>]\<rparr>"
  let ?l = "\<lparr>day = 4, date = ''2024-01-05'', trades = [\<lparr>trade_type = ''L'', r_multiple = 1\<rparr>]\<rparr>"
  let ?f = "\<lparr>day = 4, date = ''2024-01-05'',
             trades = [\<lparr>trade_type = ''W'', r_multiple = 1\<rparr>, \<lparr>trade_type = ''L'', r_multiple = 1\<rparr>]\<rparr>"
  obtain sw where sw: "process_day py_datetime 250 ?s ?w = Inr sw"
    using process_day_total by blast
  obtain sl where sl: "process_day py_datetime 250 ?s ?l = Inr sl"
    using process_day_total by blast
  obtain sf where sf: "process_day py_datetime 250 ?s ?f = Inr sf"
    using process_day_total by blast
  have w: "current_win_streak sw = 4 \<and> current_loss_streak sw = 0
         \<and> max_win_streak sw = 4 \<and> max_loss_streak sw = 2"
    using streak_state_machine [OF sw] by (simp add: sum_r_def initial_state_def)
  have l: "current_win_streak sl = 0 \<and> current_loss_streak sl = 1
         \<and> max_win_streak sl = 3 \<and> max_loss_streak sl = 2"
    using streak_state_machine [OF sl] by (simp add: sum_r_def initial_state_def)
  have f: "current_win_streak sf = 3 \<and> current_loss_streak sf = 0
         \<and> max_win_streak sf = 3 \<and> max_loss_streak sf = 2"
    using streak_state_machine [OF sf] by (simp add: sum_r_def initial_state_def)
  from sw w sl l sf f show ?thesis by blast
qed

section \<open>Week of the month\<close>

text \<open>
  Claim C8. For a date the library parses, the week of the month that the day's result
  carries is the ceiling of (day of month + weekday of the first of the month) / 7. On
  31 July 2023, a month that starts on a Saturday, this is week 6.
\<close>

theorem week_of_month_is_ceiling:
  assumes "strptime lib (date d) = Some date_obj"
    and "process_day lib risk_amount s d = Inr s'"
  shows "d_week_of_month (last (daily_results s')) =
           Some \<lceil>real_of_int (pd_day date_obj + weekday lib (date_obj\<lparr>pd_day := 1\<rparr>)) / 7\<rceil>"
  using assms
  by (auto simp: process_day_simps calendar_fields_def week_formula split: prod.splits)

theorem week_of_month_is_ceiling_witness:
  "strptime py_datetime ''2023-07-31'' = Some \<lparr>pd_year = 2023, pd_month = 7, pd_day = 31\<rparr>
   \<and> (\<exists>s'. process_day py_datetime 250 (initial_state 25000)
              \<lparr>day = 1, date = ''2023-07-31'', trades = [\<lparr>trade_type = ''W'', r_multiple = 2\<rparr>]\<rparr> = Inr s'
            \<and> d_week_of_month (last (daily_results s')) = Some 6)"
proof -
  let ?d = "\<lparr>day = 1, date = ''2023-07-31'', trades = [\<lparr>trade_type = ''W'', r_multiple = 2\<rparr>]\<rparr>"
  have p: "strptime py_datetime (date ?d) = Some \<lparr>pd_year = 2023, pd_month = 7, pd_day = 31\<rparr>"
    by (simp add: py_datetime_def py_strptime_ex)
  obtain s' where s': "process_day py_datetime 250 (initial_state 25000) ?d = Inr s'"
    using process_day_total by blast
  have "d_week_of_month (last (daily_results s')) = Some 6"
    using week_of_month_is_ceiling [OF p s'] by (simp add: py_datetime_def py_weekday_ex)
  with p s' show ?thesis by auto
qed

section \<open>Profit factor without losses\<close>



section \<open>Facts about the parser\<close>

lemmas parse_defs = parse_trade_data_def remove_spaces_def strip_def upper_def upper_char_def
  is_space_def re_match_def match_number_def opt_char_def is_sign_def is_digit_def py_float_def
  digits_val_def digit_val_def

lemma digit_val_nonneg: "0 \<le> digit_val c"
  by (simp add: digit_val_def)

lemma foldl_digits_nonneg:
  "0 \<le> a \<Longrightarrow> 0 \<le> foldl (\<lambda>acc c. 10 * acc + digit_val c) a ds"
  by (induction ds arbitrary: a) (simp_all add: digit_val_nonneg)

lemma digits_val_nonneg: "0 \<le> digits_val ds"
  by (simp add: digits_val_def foldl_digits_nonneg)

lemma opt_char_set: "set (opt_char p s) \<subseteq> set s"
  by (cases s) (auto simp: opt_char_def)

lemma py_float_nonneg:
  assumes "py_float s = Inr r" and "CHR ''-'' \<notin> set s"
  shows "0 \<le> r"
proof -
  have "opt_char is_sign s \<noteq> ''-''"
    using opt_char_set [of is_sign s] assms(2) by auto
  with assms(1) show ?thesis
    by (auto simp: py_float_def Let_def digits_val_nonneg split: if_splits)
qed

lemma match_number_set: "set (match_number s) \<subseteq> set s"
proof -
  have a: "set (takeWhile p xs) \<subseteq> set xs" for p and xs :: string
    by (auto dest: set_takeWhileD)
  have b: "set (dropWhile p xs) \<subseteq> set xs" for p and xs :: string
    by (auto dest: set_dropWhileD)
  have c: "set (drop n xs) \<subseteq> set xs" for n and xs :: string
    by (rule set_drop_subset)
  let ?s1 = "drop (length (opt_char is_sign s)) s"
  let ?s2 = "dropWhile is_digit ?s1"
  let ?dot = "opt_char (\<lambda>c. c = CHR ''.'') ?s2"
  let ?s3 = "drop (length ?dot) ?s2"
  have s1: "set ?s1 \<subseteq> set s" by (rule c)
  have s2: "set ?s2 \<subseteq> set s" using b [of is_digit ?s1] s1 by blast
  have s3: "set ?s3 \<subseteq> set s" using c [of "length ?dot" ?s2] s2 by blast
  have "set (opt_char is_sign s) \<subseteq> set s" by (rule opt_char_set)
  moreover have "set (takeWhile is_digit ?s1) \<subseteq> set s" using a [of is_digit ?s1] s1 by blast
  moreover have "set ?dot \<subseteq> set s" using opt_char_set [of "\<lambda>c. c = CHR ''.''" ?s2] s2 by blast
  moreover have "set (takeWhile is_digit ?s3) \<subseteq> set s" using a [of is_digit ?s3] s3 by blast
  ultimately show ?thesis
    by (simp add: match_number_def Let_def)
qed

lemma upper_char_minus: "upper_char c = CHR ''-'' \<Longrightarrow> c = CHR ''-''"
  by (simp add: upper_char_def split: if_splits)

lemma upper_minus:
  assumes "CHR ''-'' \<in> set (upper s)"
  shows "CHR ''-'' \<in> set s"
proof -
  from assms obtain c where c: "c \<in> set s" and "upper_char c = CHR ''-''"
    by (auto simp: upper_def)
  then have "c = CHR ''-''" by (simp add: upper_char_minus)
  with c show ?thesis by simp
qed

lemma strip_set: "set (strip s) \<subseteq> set s"
proof -
  have "set (dropWhile is_space (rev (dropWhile is_space s))) \<subseteq> set (rev (dropWhile is_space s))"
    by (auto dest: set_dropWhileD)
  moreover have "set (dropWhile is_space s) \<subseteq> set s"
    by (auto dest: set_dropWhileD)
  ultimately show ?thesis by (auto simp: strip_def)
qed

lemma split_comma_nonempty: "split_comma s \<noteq> []"
  by (induction s) (auto split: list.splits)

lemma split_comma_set: "e \<in> set (split_comma s) \<Longrightarrow> set e \<subseteq> set s"
proof (induction s arbitrary: e)
  case Nil
  then show ?case by simp
next
  case (Cons c cs)
  show ?case
  proof (cases "c = CHR '',''")
    case True
    with Cons.prems have "e = [] \<or> e \<in> set (split_comma cs)" by auto
    with Cons.IH show ?thesis by auto
  next
    case False
    obtain t ts where ts: "split_comma cs = t # ts"
      using split_comma_nonempty [of cs] by (cases "split_comma cs") auto
    with False Cons.prems have "e = c # t \<or> e \<in> set ts" by auto
    then show ?thesis
    proof
      assume "e = c # t"
      moreover have "set t \<subseteq> set cs" using Cons.IH [of t] ts by simp
      ultimately show ?thesis by auto
    next
      assume "e \<in> set ts"
      then have "set e \<subseteq> set cs" using Cons.IH [of e] ts by simp
      then show ?thesis by auto
    qed
  qed
qed

lemma re_match_number:
  "re_match entry = Some (ty, r_str) \<Longrightarrow> set r_str \<subseteq> set entry"
  using match_number_set
  by (cases entry) (auto simp: re_match_def split: if_splits)

lemma parse_entries_nonneg:
  assumes "parse_entries es acc = Inr (Some ts)"
    and "\<forall>e \<in> set es. CHR ''-'' \<notin> set e"
    and "\<forall>t \<in> set acc. 0 \<le> r_multiple t"
  shows "\<forall>t \<in> set ts. 0 \<le> r_multiple t"
  using assms
proof (induction es arbitrary: acc)
  case Nil
  then show ?case by simp
next
  case (Cons e es)
  let ?entry = "upper (strip e)"
  have nominus: "CHR ''-'' \<notin> set ?entry"
    using Cons.prems(2) strip_set [of e] upper_minus [of "strip e"] by auto
  have rest: "\<forall>e \<in> set es. CHR ''-'' \<notin> set e" using Cons.prems(2) by simp
  show ?case
  proof (cases "?entry = []")
    case True
    with Cons.prems(1) have "parse_entries es acc = Inr (Some ts)" by simp
    from Cons.IH [OF this rest Cons.prems(3)] show ?thesis .
  next
    case ne: False
    show ?thesis
    proof (cases "?entry = ''BE''")
      case True
      with ne Cons.prems(1)
      have "parse_entries es (acc @ [\<lparr>trade_type = ''BE'', r_multiple = 0\<rparr>]) = Inr (Some ts)"
        by simp
      moreover have "\<forall>t \<in> set (acc @ [\<lparr>trade_type = ''BE'', r_multiple = 0\<rparr>]). 0 \<le> r_multiple t"
        using Cons.prems(3) by simp
      ultimately show ?thesis using Cons.IH rest by blast
    next
      case nbe: False
      show ?thesis
      proof (cases "re_match ?entry")
        case None
        with ne nbe Cons.prems(1) show ?thesis by simp
      next
        case (Some p)
        obtain ty r_str where p: "p = (ty, r_str)" by (cases p)
        have sub: "set r_str \<subseteq> set ?entry" using re_match_number Some p by blast
        show ?thesis
        proof (cases "if r_str = [] then Inr 1 else py_float r_str")
          case (Inl x)
          with ne nbe Some p Cons.prems(1) show ?thesis by simp
        next
          case (Inr r)
          have "0 \<le> r"
          proof (cases "r_str = []")
            case True
            with Inr show ?thesis by simp
          next
            case False
            with Inr have "py_float r_str = Inr r" by simp
            moreover have "CHR ''-'' \<notin> set r_str" using sub nominus by blast
            ultimately show ?thesis by (rule py_float_nonneg)
          qed
          then have "\<forall>t \<in> set (acc @ [\<lparr>trade_type = ty, r_multiple = r\<rparr>]). 0 \<le> r_multiple t"
            using Cons.prems(3) by simp
          moreover have "parse_entries es (acc @ [\<lparr>trade_type = ty, r_multiple = r\<rparr>]) = Inr (Some ts)"
            using ne nbe Some p Inr Cons.prems(1) by simp
          ultimately show ?thesis using Cons.IH rest by blast
        qed
      qed
    qed
  qed
qed

lemma parse_entries_rejects:
  assumes "e \<in> set es"
    and "upper (strip e) = c # rest"
    and "c \<noteq> CHR ''W''" and "c \<noteq> CHR ''L''"
    and "upper (strip e) \<noteq> ''BE''"
  shows "parse_entries es acc \<noteq> Inr (Some ts)"
  using assms(1)
proof (induction es arbitrary: acc)
  case Nil
  then show ?case by simp
next
  case (Cons x xs)
  show ?case
  proof (cases "x = e")
    case True
    have "re_match (upper (strip e)) = None"
      using assms(2,3,4) by (simp add: re_match_def)
    moreover have "upper (strip e) \<noteq> []" using assms(2) by simp
    ultimately show ?thesis using True assms(5) by simp
  next
    case False
    with Cons.prems have "e \<in> set xs" by simp
    then have ih: "\<And>acc. parse_entries xs acc \<noteq> Inr (Some ts)" using Cons.IH by blast
    show ?thesis
      using ih by (auto simp: Let_def bind_exn_def split: option.splits sum.splits prod.splits)
  qed
qed

lemma parse_rejects_foreign_token:
  assumes "e \<in> set (split_comma (remove_spaces s))"
    and "upper (strip e) = c # rest"
    and "c \<noteq> CHR ''W''" and "c \<noteq> CHR ''L''"
    and "upper (strip e) \<noteq> ''BE''"
  shows "parse_trade_data s \<noteq> Inr (Some ts)"
  using parse_entries_rejects [OF assms] by (simp add: parse_trade_data_def)

section \<open>Tokens outside the notation\<close>

text \<open>
  Claim C1. Every token that is neither \<^verbatim>\<open>BE\<close> nor a letter W or L with an optional
  signed number and an optional trailing R is to make the whole parse fail. The parser does
  so for a token that starts with another character (\<open>parse_rejects_foreign_token\<close>).
  It does not for \<^verbatim>\<open>W2X\<close>: the pattern is matched at the start of the token only, the
  text after the match is never looked at, and the parse returns the one trade W 2.
\<close>

theorem parse_accepts_trailing_text:
  "\<not> spec_token ''W2X'' \<and>
   parse_trade_data ''W2X'' = Inr (Some [\<lparr>trade_type = ''W'', r_multiple = 2\<rparr>])"
  by (simp add: parse_defs spec_token_def)

section \<open>Numbers without a digit\<close>

text \<open>
  Claim C2. The parser is to return a list or the error value on every input. The tokens
  \<^verbatim>\<open>W.\<close> and \<^verbatim>\<open>L-\<close> belong to the notation, their numeric group is not empty
  and holds no digit, and \<^verbatim>\<open>float\<close> raises \<^verbatim>\<open>ValueError\<close> on it: the parser
  returns nothing.
\<close>

theorem parse_raises_on_digitless_number:
  "spec_token ''W.'' \<and> parse_trade_data ''W.'' = Inl ValueError \<and>
   spec_token ''L-'' \<and> parse_trade_data ''L-'' = Inl ValueError"
  by (simp add: parse_defs spec_token_def)

section \<open>The sign of the magnitude\<close>

text \<open>
  Claim C3, as the parser has it. Every trade of a list that the parser returns for an
  input without a minus sign has a magnitude that is 0 or more.
\<close>

theorem parse_nonneg_without_minus:
  assumes "parse_trade_data s = Inr (Some ts)"
    and "CHR ''-'' \<notin> set s"
    and "t \<in> set ts"
  shows "0 \<le> r_multiple t"
proof -
  have "\<forall>e \<in> set (split_comma (remove_spaces s)). CHR ''-'' \<notin> set e"
  proof
    fix e assume "e \<in> set (split_comma (remove_spaces s))"
    then have "set e \<subseteq> set (remove_spaces s)" by (rule split_comma_set)
    with assms(2) show "CHR ''-'' \<notin> set e" by (auto simp: remove_spaces_def)
  qed
  moreover have "\<forall>t \<in> set ([] :: trade list). 0 \<le> r_multiple t" by simp
  moreover from assms(1) have "parse_entries (split_comma (remove_spaces s)) [] = Inr (Some ts)"
    by (simp add: parse_trade_data_def)
  ultimately have "\<forall>t \<in> set ts. 0 \<le> r_multiple t"
    using parse_entries_nonneg by blast
  with assms(3) show ?thesis by blast
qed

theorem parse_nonneg_without_minus_witness:
  "parse_trade_data ''w2r, L1.5R, be, W+3''
     = Inr (Some [\<lparr>trade_type = ''W'', r_multiple = 2\<rparr>, \<lparr>trade_type = ''L'', r_multiple = 3 / 2\<rparr>,
                  \<lparr>trade_type = ''BE'', r_multiple = 0\<rparr>, \<lparr>trade_type = ''W'', r_multiple = 3\<rparr>])
   \<and> CHR ''-'' \<notin> set ''w2r, L1.5R, be, W+3''
   \<and> 0 \<le> r_multiple \<lparr>trade_type = ''L'', r_multiple = 3 / 2\<rparr>"
proof -
  have p: "parse_trade_data ''w2r, L1.5R, be, W+3''
     = Inr (Some [\<lparr>trade_type = ''W'', r_multiple = 2\<rparr>, \<lparr>trade_type = ''L'', r_multiple = 3 / 2\<rparr>,
                  \<lparr>trade_type = ''BE'', r_multiple = 0\<rparr>, \<lparr>trade_type = ''W'', r_multiple = 3\<rparr>])"
    by (simp add: parse_defs)
  have m: "CHR ''-'' \<notin> set ''w2r, L1.5R, be, W+3''" by simp
  from p m parse_nonneg_without_minus [OF p m, of "\<lparr>trade_type = ''L'', r_multiple = 3 / 2\<rparr>"]
  show ?thesis by simp
qed

text \<open>
  Claim C3 as stated fails: a minus sign in the numeric group is kept by \<^verbatim>\<open>float\<close>
  and stored in the magnitude field, for \<^verbatim>\<open>L-1\<close> and for \<^verbatim>\<open>W-2R\<close>.
\<close>

theorem parse_keeps_minus_sign:
  "parse_trade_data ''L-1'' = Inr (Some [\<lparr>trade_type = ''L'', r_multiple = - 1\<rparr>]) \<and>
   parse_trade_data ''W-2R'' = Inr (Some [\<lparr>trade_type = ''W'', r_multiple = - 2\<rparr>]) \<and>
   \<not> (0 \<le> r_multiple \<lparr>trade_type = ''L'', r_multiple = - 1\<rparr>)"
  by (simp add: parse_defs)

section \<open>The worked example\<close>

lemma example_report:
  "\<exists>r. analyze_trades lib (example_days n1 dt1 n2 dt2) 25000 250 = Inr r
     \<and> map d_net_r (daily r) = [1, 1]
     \<and> map d_daily_pnl (daily r) = [250, 250]
     \<and> map d_end_balance (daily r) = [25250, 25500]
     \<and> o_total_r (overall r) = 2
     \<and> o_win_rate (overall r) = 200 / 3
     \<and> o_max_drawdown_amount (overall r) = 0
     \<and> o_max_drawdown_pct (overall r) = 0"
proof -
  from example_state [of lib n1 dt1 n2 dt2] obtain s where all:
    "process_days lib 250 (initial_state 25000) (example_days n1 dt1 n2 dt2) = Inr s
     \<and> map d_net_r (daily_results s) = [1, 1]
     \<and> map d_daily_pnl (daily_results s) = [250, 250]
     \<and> map d_end_balance (daily_results s) = [25250, 25500]
     \<and> total_wins s = 2 \<and> total_losses s = 1
     \<and> total_r_won s = 3 \<and> total_r_lost s = 1
     \<and> equity_curve s = [25000, 25250, 25500]
     \<and> daily_returns s = [1 / 100, 1 / 101]
     \<and> all_trade_r s = [2, - 1, 1]" ..
  then have s: "process_days lib 250 (initial_state 25000) (example_days n1 dt1 n2 dt2) = Inr s"
    and f: "map d_net_r (daily_results s) = [1, 1]"
      "map d_daily_pnl (daily_results s) = [250, 250]"
      "map d_end_balance (daily_results s) = [25250, 25500]"
      "total_wins s = 2" "total_losses s = 1" "total_r_won s = 3" "total_r_lost s = 1"
      "equity_curve s = [25000, 25250, 25500]"
    by simp_all
  from analyze_trades_split [OF s] obtain ov
    where ov: "overall_metrics_of 250 s = Inr ov"
      and r: "analyze_trades lib (example_days n1 dt1 n2 dt2) 25000 250
              = Inr \<lparr>overall = ov, daily = daily_results s\<rparr>"
    by blast
  have dd: "max_drawdown (equity_curve s) = Inr (0, 0)"
    by (simp add: f max_drawdown_def py_div_eq)
  from overall_metrics_fields(4) [OF ov] dd
  have "o_max_drawdown_pct ov = 0" "o_max_drawdown_amount ov = 0" by simp_all
  moreover from overall_metrics_fields(2) [OF ov] have "o_win_rate ov = 200 / 3"
    by (simp add: f)
  moreover from overall_metrics_fields(3) [OF ov] have "o_total_r ov = 2"
    by (simp add: f)
  ultimately show ?thesis using r f by simp
qed

text \<open>
  Claim C4, as the aggregator computes it. With an initial balance of 25000 and a risk
  amount of 250, the days \<^verbatim>\<open>[W2R, L1R]\<close> and \<^verbatim>\<open>[W1R]\<close> give a net R of 1, a
  daily profit of 250 and end balances of 25250 and 25500; overall the total R is 2, the
  maximal drawdown is 0 in dollars and in percent, and the win rate is 200/3 percent:
  two wins out of three decided trades.
\<close>

theorem example_history_report:
  "\<exists>r. analyze_trades lib (example_days n1 dt1 n2 dt2) 25000 250 = Inr r
     \<and> map d_net_r (daily r) = [1, 1]
     \<and> map d_daily_pnl (daily r) = [250, 250]
     \<and> map d_end_balance (daily r) = [25250, 25500]
     \<and> o_total_r (overall r) = 2
     \<and> o_win_rate (overall r) = 200 / 3
     \<and> o_max_drawdown_amount (overall r) = 0
     \<and> o_max_drawdown_pct (overall r) = 0"
  by (rule example_report)

text \<open>
  Claim C4 as stated fails in its win rate: the history has a losing trade, so the win rate
  is not 100 percent.
\<close>

theorem example_win_rate_not_100:
  "o_win_rate (overall (projr (analyze_trades py_datetime
      (example_days 1 ''2024-01-02'' 2 ''2024-01-03'') 25000 250))) \<noteq> 100"
proof -
  from example_report [of py_datetime 1 "''2024-01-02''" 2 "''2024-01-03''"]
  obtain r where "analyze_trades py_datetime (example_days 1 ''2024-01-02'' 2 ''2024-01-03'') 25000 250 = Inr r
     \<and> map d_net_r (daily r) = [1, 1]
     \<and> map d_daily_pnl (daily r) = [250, 250]
     \<and> map d_end_balance (daily r) = [25250, 25500]
     \<and> o_total_r (overall r) = 2
     \<and> o_win_rate (overall r) = 200 / 3
     \<and> o_max_drawdown_amount (overall r) = 0
     \<and> o_max_drawdown_pct (overall r) = 0" ..
  then show ?thesis by simp
qed

section \<open>Saving and parsing again\<close>

text \<open>
  Claim C9. Parsing, writing the trades as \<^verbatim>\<open>save_data\<close> does and parsing again is
  to give the first list back. \<^verbatim>\<open>W10000000000000000\<close> belongs to the notation and
  parses to a win of 1e16; Python prints that float as \<^verbatim>\<open>1e+16\<close>, the row becomes
  \<^verbatim>\<open>W1e+16R\<close>, and the parser reads it as a win of 1: the pattern stops at the
  letter e.
\<close>

theorem exponent_notation_breaks_round_trip:
  assumes "float_str (10 ^ 16) = ''1e+16''"
  shows "spec_token ''W10000000000000000''
     \<and> parse_trade_data ''W10000000000000000''
         = Inr (Some [\<lparr>trade_type = ''W'', r_multiple = 10 ^ 16\<rparr>])
     \<and> trades_str float_str [\<lparr>trade_type = ''W'', r_multiple = 10 ^ 16\<rparr>] = ''W1e+16R''
     \<and> parse_trade_data (trades_str float_str [\<lparr>trade_type = ''W'', r_multiple = 10 ^ 16\<rparr>])
         = Inr (Some [\<lparr>trade_type = ''W'', r_multiple = 1\<rparr>])"
  using assms by (simp add: parse_defs spec_token_def trades_str_def trade_string_def)

theorem exponent_notation_breaks_round_trip_witness:
  "float_str_sample (10 ^ 16) = ''1e+16''
   \<and> parse_trade_data ''W10000000000000000''
       = Inr (Some [\<lparr>trade_type = ''W'', r_multiple = 10 ^ 16\<rparr>])
   \<and> parse_trade_data (trades_str float_str_sample [\<lparr>trade_type = ''W'', r_multiple = 10 ^ 16\<rparr>])
       = Inr (Some [\<lparr>trade_type = ''W'', r_multiple = 1\<rparr>])"
proof -
  have h: "float_str_sample (10 ^ 16) = ''1e+16''" by (simp add: float_str_sample_def)
  from h exponent_notation_breaks_round_trip [of float_str_sample] show ?thesis by blast
qed

end
